theory Spec2Isabelle
  imports Complex_Main
begin

section \<open>Values exchanged with the signaling server\<close>

text \<open>
  The sender (\<^verbatim>\<open>scripts/gstreamer-webrtc-sender.py\<close>) exchanges JSON objects with the
  signaling server. A decoded message is whatever \<^verbatim>\<open>json.loads\<close> returns: Python's
  \<^verbatim>\<open>None\<close>, a bool, an int, a float, a str, a list or a dict. A dict is an association
  list read with \<open>map_of\<close> (keys of a decoded dict are distinct strings).
\<close>

datatype json =
    JNull
  | JBool bool
  | JInt int
  | JFloat real
  | JStr string
  | JArr "json list"
  | JObj "(string \<times> json) list"

type_synonym message = "(string \<times> json) list"

text \<open>\<^verbatim>\<open>d.get(k)\<close> and \<^verbatim>\<open>d.get(k, default)\<close>: a missing key gives the default, \<^verbatim>\<open>None\<close>
  when there is none.\<close>

definition dict_get_default :: "message \<Rightarrow> string \<Rightarrow> json \<Rightarrow> json" where
  "dict_get_default d k dflt = (case map_of d k of None \<Rightarrow> dflt | Some v \<Rightarrow> v)"

definition dict_get :: "message \<Rightarrow> string \<Rightarrow> json" where
  "dict_get d k = dict_get_default d k JNull"

text \<open>Python's truth value of a decoded JSON value, as tested by \<^verbatim>\<open>if sdp:\<close> and
  \<^verbatim>\<open>if candidate:\<close>.\<close>

fun truthy :: "json \<Rightarrow> bool" where
  "truthy JNull = False"
| "truthy (JBool b) = b"
| "truthy (JInt i) = (i \<noteq> 0)"
| "truthy (JFloat r) = (r \<noteq> 0)"
| "truthy (JStr s) = (s \<noteq> [])"
| "truthy (JArr xs) = (xs \<noteq> [])"
| "truthy (JObj kvs) = (kvs \<noteq> [])"

section \<open>The streamer and what it does to the outside\<close>

datatype level = DEBUG | INFO | WARNING | ERROR

datatype exn =
    ValueError
  | TypeError
  | AttributeError
  | RuntimeError
  | GLibError
  | JSONDecodeError
  | ConnectError
  | ConnectionClosedError

text \<open>Signals emitted on the \<^verbatim>\<open>webrtcbin\<close> element. The arguments of
  \<^verbatim>\<open>add-ice-candidate\<close> are passed on as they were decoded.\<close>

datatype signal =
    CreateOffer
  | SetLocalDescription string
  | SetRemoteDescription string
  | AddIceCandidate json json

datatype gst_state = NULL | PLAYING

text \<open>A coroutine handed to \<^verbatim>\<open>asyncio.get_event_loop().create_task\<close>: it runs later,
  when the event loop next gets control.\<close>

datatype task =
    SendSignalingMessage message
  | WebsocketClose

text \<open>Everything observable from outside, in the order it happens: log records (the
  message text, with an interpolated value or exception kept apart), signals emitted on
  the media engine, pipeline state changes, websocket traffic, scheduled tasks.\<close>

datatype effect =
    Log level string
  | LogValue level string json
  | LogExn level string exn
  | Emit signal
  | SetProperty string string
  | PipelineSetState gst_state
  | WsConnect string
  | WsSend message
  | WsClose
  | CreateTask task
  | LoopQuit

datatype encoder = Hardware | Software

datatype channel = Open | Closed

text \<open>The fields of \<^verbatim>\<open>WebRTCStreamer\<close>. \<^verbatim>\<open>websocket\<close> holds the connection object once
  \<^verbatim>\<open>websockets.connect\<close> returned, with the condition the connection is in;
  \<^verbatim>\<open>session_id\<close> holds \<^verbatim>\<open>None\<close> (\<open>JNull\<close>) or whatever a \<^verbatim>\<open>session-created\<close> message
  carried.\<close>

record streamer =
  device :: string
  width :: int
  height :: int
  fps :: int
  bitrate :: int
  signaling_url :: string
  stun_server :: string
  pipeline :: "encoder option"
  webrtcbin :: "unit option"
  websocket :: "channel option"
  loop :: "unit option"
  session_id :: json

text \<open>How a call ends: it returns, or an exception leaves it.\<close>

datatype completion = Returned | Raised exn

type_synonym outcome = "completion \<times> streamer \<times> effect list"

definition completion_of :: "outcome \<Rightarrow> completion" where
  "completion_of r = fst r"

definition state_of :: "outcome \<Rightarrow> streamer" where
  "state_of r = fst (snd r)"

definition effects_of :: "outcome \<Rightarrow> effect list" where
  "effects_of r = snd (snd r)"

text \<open>\<^verbatim>\<open>WebRTCStreamer.__init__\<close>.\<close>

definition init :: "string \<Rightarrow> int \<Rightarrow> int \<Rightarrow> int \<Rightarrow> int \<Rightarrow> string \<Rightarrow> string \<Rightarrow> streamer" where
  "init dev w h f b url stun =
     \<lparr> device = dev, width = w, height = h, fps = f, bitrate = b,
       signaling_url = url, stun_server = stun,
       pipeline = None, webrtcbin = None, websocket = None, loop = None,
       session_id = JNull \<rparr>"

section \<open>Signaling\<close>

text \<open>\<^verbatim>\<open>_send_signaling_message\<close>: nothing happens without a websocket; an exception of
  \<^verbatim>\<open>send\<close> (the connection is closed) is caught and logged.\<close>

definition send_signaling_message :: "streamer \<Rightarrow> message \<Rightarrow> outcome" where
  "send_signaling_message s m =
     (case websocket s of
        None \<Rightarrow> (Returned, s, [])
      | Some Open \<Rightarrow> (Returned, s, [WsSend m])
      | Some Closed \<Rightarrow>
          (Returned, s,
           [LogExn ERROR ''Failed to send signaling message: '' ConnectionClosedError]))"

text \<open>\<^verbatim>\<open>self.webrtcbin.emit(...)\<close>: on \<^verbatim>\<open>None\<close> the attribute access raises.\<close>

definition webrtcbin_emit :: "streamer \<Rightarrow> effect list \<Rightarrow> signal \<Rightarrow> outcome" where
  "webrtcbin_emit s logged sg =
     (case webrtcbin s of
        None \<Rightarrow> (Raised AttributeError, s, logged)
      | Some _ \<Rightarrow> (Returned, s, logged @ [Emit sg]))"

text \<open>\<^verbatim>\<open>_handle_signaling_message\<close>. \<^verbatim>\<open>message.get\<close> exists on a dict only;
  \<^verbatim>\<open>bytes(sdp, "utf-8")\<close> accepts a str only.\<close>

definition handle_answer :: "streamer \<Rightarrow> message \<Rightarrow> outcome" where
  "handle_answer s d =
     (let sdp = dict_get d ''sdp'' in
      if truthy sdp then
        (case sdp of
           JStr text \<Rightarrow>
             webrtcbin_emit s [Log INFO ''Received SDP answer''] (SetRemoteDescription text)
         | _ \<Rightarrow> (Raised TypeError, s, [Log INFO ''Received SDP answer'']))
      else (Returned, s, []))"

definition handle_ice_candidate :: "streamer \<Rightarrow> message \<Rightarrow> outcome" where
  "handle_ice_candidate s d =
     (let candidate = dict_get d ''candidate'';
          sdp_mline_index = dict_get_default d ''sdpMLineIndex'' (JInt 0) in
      if truthy candidate then
        webrtcbin_emit s [Log DEBUG ''Adding remote ICE candidate'']
          (AddIceCandidate sdp_mline_index candidate)
      else (Returned, s, []))"

definition handle_session_created :: "streamer \<Rightarrow> message \<Rightarrow> outcome" where
  "handle_session_created s d =
     (let s' = s\<lparr>session_id := dict_get d ''session_id''\<rparr> in
      (Returned, s', [LogValue INFO ''Session created: '' (session_id s')]))"

definition handle_error :: "streamer \<Rightarrow> message \<Rightarrow> outcome" where
  "handle_error s d =
     (Returned, s, [LogValue ERROR ''Signaling error: '' (dict_get d ''message'')])"

fun handle_signaling_message :: "streamer \<Rightarrow> json \<Rightarrow> outcome" where
  "handle_signaling_message s (JObj d) =
     (let msg_type = dict_get d ''type'' in
      if msg_type = JStr ''answer'' then handle_answer s d
      else if msg_type = JStr ''ice-candidate'' then handle_ice_candidate s d
      else if msg_type = JStr ''session-created'' then handle_session_created s d
      else if msg_type = JStr ''error'' then handle_error s d
      else (Returned, s, []))"
| "handle_signaling_message s _ = (Raised AttributeError, s, [])"

section \<open>Callbacks of the media engine\<close>

text \<open>The callbacks are modelled as run one at a time, each to its end; the thread a
  callback runs on is not part of the model. \<^verbatim>\<open>_on_negotiation_needed\<close> and
  \<^verbatim>\<open>_on_offer_created\<close> emit on the element they are given, which is the \<^verbatim>\<open>webrtcbin\<close>
  the callback was connected to. The created offer is its SDP text, \<open>None\<close> when the
  reply holds no offer.\<close>

definition on_negotiation_needed :: "streamer \<Rightarrow> outcome" where
  "on_negotiation_needed s =
     (Returned, s, [Log INFO ''Negotiation needed, creating offer...'', Emit CreateOffer])"

definition offer_message :: "string \<Rightarrow> json \<Rightarrow> message" where
  "offer_message sdp_text sid =
     [(''type'', JStr ''offer''), (''sdp'', JStr sdp_text), (''session_id'', sid)]"

definition on_offer_created :: "streamer \<Rightarrow> string option \<Rightarrow> outcome" where
  "on_offer_created s offer =
     (case offer of
        None \<Rightarrow> (Returned, s, [Log ERROR ''Failed to create offer''])
      | Some sdp_text \<Rightarrow>
          (Returned, s,
           [Emit (SetLocalDescription sdp_text),
            Log INFO ''Sending SDP offer to signaling server'',
            CreateTask (SendSignalingMessage (offer_message sdp_text (session_id s)))]))"

definition candidate_message :: "string \<Rightarrow> int \<Rightarrow> json \<Rightarrow> message" where
  "candidate_message candidate mline_index sid =
     [(''type'', JStr ''ice-candidate''), (''candidate'', JStr candidate),
      (''sdpMLineIndex'', JInt mline_index), (''session_id'', sid)]"

definition on_ice_candidate :: "streamer \<Rightarrow> int \<Rightarrow> string \<Rightarrow> outcome" where
  "on_ice_candidate s mline_index candidate =
     (Returned, s,
      [LogValue DEBUG ''ICE candidate: '' (JStr candidate),
       CreateTask (SendSignalingMessage (candidate_message candidate mline_index (session_id s)))])"

text \<open>\<^verbatim>\<open>_on_ice_connection_state\<close> and \<^verbatim>\<open>_on_connection_state\<close> log the state they
  read.\<close>

datatype ice_state =
    IceNew | IceChecking | IceConnected | IceCompleted | IceFailed | IceDisconnected | IceClosed

definition on_ice_connection_state :: "streamer \<Rightarrow> ice_state \<Rightarrow> outcome" where
  "on_ice_connection_state s st =
     (Returned, s,
      Log INFO ''ICE connection state'' #
      (if st = IceFailed then [Log ERROR ''ICE connection failed'']
       else if st = IceConnected then [Log INFO ''ICE connection established!'']
       else []))"

definition on_connection_state :: "streamer \<Rightarrow> outcome" where
  "on_connection_state s = (Returned, s, [Log INFO ''Peer connection state''])"

text \<open>A scheduled task, when the event loop runs it.\<close>

fun run_task :: "streamer \<Rightarrow> task \<Rightarrow> outcome" where
  "run_task s (SendSignalingMessage m) = send_signaling_message s m"
| "run_task s WebsocketClose = (Returned, s, [WsClose])"

section \<open>Starting and stopping\<close>

text \<open>\<^verbatim>\<open>stop\<close>.\<close>

definition stop :: "streamer \<Rightarrow> outcome" where
  "stop s =
     (let e1 = (if pipeline s \<noteq> None then [PipelineSetState NULL] else []);
          s1 = (if pipeline s \<noteq> None then s\<lparr>pipeline := None\<rparr> else s);
          e2 = (if websocket s1 \<noteq> None then [CreateTask WebsocketClose] else []);
          s2 = (if websocket s1 \<noteq> None then s1\<lparr>websocket := None\<rparr> else s1);
          e3 = (if loop s2 \<noteq> None then [LoopQuit] else [])
      in (Returned, s2,
          [Log INFO ''Stopping WebRTC streamer...''] @ e1 @ e2 @ e3 @
          [Log INFO ''Streamer stopped'']))"

text \<open>\<^verbatim>\<open>signal_handler\<close>, which \<^verbatim>\<open>main\<close> installs for \<^verbatim>\<open>SIGINT\<close> and \<^verbatim>\<open>SIGTERM\<close>: it
  calls \<^verbatim>\<open>stop\<close> and exits the process with status 0.\<close>

definition signal_handler :: "streamer \<Rightarrow> int \<times> streamer \<times> effect list" where
  "signal_handler s =
     (case stop s of (c, s', es) \<Rightarrow> (0, s', Log INFO ''Received shutdown signal'' # es))"

text \<open>\<^verbatim>\<open>stop\<close> again, statement by statement. Python runs a signal handler in the main
  thread between two instructions of whatever that thread is executing, a call of
  \<^verbatim>\<open>stop\<close> included. A statement that uses a field which is \<^verbatim>\<open>None\<close> by then raises.\<close>

datatype stop_point =
    AtLogStopping
  | AtTestPipeline
  | AtSetStateNull
  | AtClearPipeline
  | AtTestWebsocket
  | AtCloseWebsocket
  | AtClearWebsocket
  | AtTestLoop
  | AtQuitLoop
  | AtLogStopped
  | AtReturn

fun stop_step :: "stop_point \<Rightarrow> streamer \<Rightarrow> completion \<times> stop_point \<times> streamer \<times> effect list" where
  "stop_step AtLogStopping s =
     (Returned, AtTestPipeline, s, [Log INFO ''Stopping WebRTC streamer...''])"
| "stop_step AtTestPipeline s =
     (Returned, (if pipeline s \<noteq> None then AtSetStateNull else AtTestWebsocket), s, [])"
| "stop_step AtSetStateNull s =
     (case pipeline s of
        None \<Rightarrow> (Raised AttributeError, AtReturn, s, [])
      | Some _ \<Rightarrow> (Returned, AtClearPipeline, s, [PipelineSetState NULL]))"
| "stop_step AtClearPipeline s = (Returned, AtTestWebsocket, s\<lparr>pipeline := None\<rparr>, [])"
| "stop_step AtTestWebsocket s =
     (Returned, (if websocket s \<noteq> None then AtCloseWebsocket else AtTestLoop), s, [])"
| "stop_step AtCloseWebsocket s =
     (case websocket s of
        None \<Rightarrow> (Raised AttributeError, AtReturn, s, [])
      | Some _ \<Rightarrow> (Returned, AtClearWebsocket, s, [CreateTask WebsocketClose]))"
| "stop_step AtClearWebsocket s = (Returned, AtTestLoop, s\<lparr>websocket := None\<rparr>, [])"
| "stop_step AtTestLoop s =
     (Returned, (if loop s \<noteq> None then AtQuitLoop else AtLogStopped), s, [])"
| "stop_step AtQuitLoop s =
     (case loop s of
        None \<Rightarrow> (Raised AttributeError, AtReturn, s, [])
      | Some _ \<Rightarrow> (Returned, AtLogStopped, s, [LoopQuit]))"
| "stop_step AtLogStopped s = (Returned, AtReturn, s, [Log INFO ''Streamer stopped''])"
| "stop_step AtReturn s = (Returned, AtReturn, s, [])"

fun stop_steps :: "nat \<Rightarrow> stop_point \<Rightarrow> streamer \<Rightarrow> completion \<times> stop_point \<times> streamer \<times> effect list" where
  "stop_steps 0 pt s = (Returned, pt, s, [])"
| "stop_steps (Suc n) pt s =
     (case stop_step pt s of
        (Raised e, pt', s', es) \<Rightarrow> (Raised e, pt', s', es)
      | (Returned, pt', s', es) \<Rightarrow>
          (case stop_steps n pt' s' of (c, pt'', s'', es') \<Rightarrow> (c, pt'', s'', es @ es')))"

text \<open>A call of \<^verbatim>\<open>stop\<close> that has run \<open>k\<close> statements when a shutdown signal arrives: the
  handler runs, with its own call of \<^verbatim>\<open>stop\<close>, and ends the process.\<close>

definition stop_interrupted :: "nat \<Rightarrow> streamer \<Rightarrow> int \<times> streamer \<times> effect list" where
  "stop_interrupted k s =
     (case stop_steps k AtLogStopping s of
        (c, pt, s1, es1) \<Rightarrow>
          (case signal_handler s1 of (status, s2, es2) \<Rightarrow> (status, s2, es1 @ es2)))"

text \<open>What GStreamer answers while the pipeline is built and started: whether
  \<^verbatim>\<open>Gst.parse_launch\<close> accepts the hardware pipeline, whether it accepts the software
  fallback, whether the pipeline has an element named \<^verbatim>\<open>sendrecv\<close>, and whether the
  change to \<^verbatim>\<open>PLAYING\<close> succeeds. The text of the pipeline description is left out of
  the log record.\<close>

record gst_env =
  launch_ok :: bool
  fallback_ok :: bool
  has_sendrecv :: bool
  playing_ok :: bool

text \<open>Running one call after another: an exception ends the sequence.\<close>

definition and_then :: "outcome \<Rightarrow> (streamer \<Rightarrow> outcome) \<Rightarrow> outcome" where
  "and_then r f =
     (case r of
        (Raised e, s, es) \<Rightarrow> (Raised e, s, es)
      | (Returned, s, es) \<Rightarrow> (case f s of (c, s', es') \<Rightarrow> (c, s', es @ es')))"

definition configure_ice_servers :: "streamer \<Rightarrow> outcome" where
  "configure_ice_servers s =
     (if stun_server s \<noteq> [] then
        (Returned, s,
         [SetProperty ''stun-server'' (stun_server s),
          Log INFO (''STUN server configured: '' @ stun_server s)])
      else (Returned, s, []))"

definition parse_launch :: "streamer \<Rightarrow> gst_env \<Rightarrow> outcome" where
  "parse_launch s env =
     (if launch_ok env then
        (Returned, s\<lparr>pipeline := Some Hardware\<rparr>, [Log INFO ''Creating pipeline''])
      else if fallback_ok env then
        (Returned, s\<lparr>pipeline := Some Software\<rparr>,
         [Log INFO ''Creating pipeline'',
          LogExn ERROR ''Failed to create pipeline: '' GLibError,
          Log INFO ''Trying fallback pipeline with software encoding...''])
      else
        (Raised GLibError, s,
         [Log INFO ''Creating pipeline'',
          LogExn ERROR ''Failed to create pipeline: '' GLibError,
          Log INFO ''Trying fallback pipeline with software encoding...'']))"

definition get_sendrecv :: "gst_env \<Rightarrow> streamer \<Rightarrow> outcome" where
  "get_sendrecv env s =
     (if has_sendrecv env then (Returned, s\<lparr>webrtcbin := Some ()\<rparr>, [])
      else (Raised RuntimeError, s\<lparr>webrtcbin := None\<rparr>, []))"

definition create_pipeline :: "streamer \<Rightarrow> gst_env \<Rightarrow> outcome" where
  "create_pipeline s env =
     and_then (and_then (and_then (parse_launch s env) (get_sendrecv env))
                 configure_ice_servers)
       (\<lambda>s'. (Returned, s', [Log INFO ''Pipeline created successfully'']))"

definition set_playing :: "gst_env \<Rightarrow> streamer \<Rightarrow> outcome" where
  "set_playing env s =
     (if playing_ok env then
        (Returned, s, [PipelineSetState PLAYING, Log INFO ''Pipeline started''])
      else (Raised RuntimeError, s, [PipelineSetState PLAYING]))"

definition start :: "streamer \<Rightarrow> gst_env \<Rightarrow> outcome" where
  "start s env =
     and_then (and_then (Returned, s, [Log INFO ''Starting WebRTC streamer...''])
                 (\<lambda>s'. create_pipeline s' env))
       (set_playing env)"

text \<open>\<^verbatim>\<open>_on_bus_message\<close>: an error or the end of the stream stops the streamer; a state
  change is logged when its source is the pipeline.\<close>

datatype bus_message = BusError | BusWarning | BusEos | BusStateChanged bool | BusOther

fun on_bus_message :: "streamer \<Rightarrow> bus_message \<Rightarrow> outcome" where
  "on_bus_message s BusError =
     and_then (Returned, s, [Log ERROR ''Pipeline error'', Log DEBUG ''Debug info'']) stop"
| "on_bus_message s BusWarning = (Returned, s, [Log WARNING ''Pipeline warning''])"
| "on_bus_message s BusEos = and_then (Returned, s, [Log INFO ''End of stream'']) stop"
| "on_bus_message s (BusStateChanged from_pipeline) =
     (Returned, s, (if from_pipeline then [Log DEBUG ''Pipeline state''] else []))"
| "on_bus_message s BusOther = (Returned, s, [])"

section \<open>Decimal text of integers\<close>

text \<open>\<^verbatim>\<open>str(n)\<close> of an int, as the f-string of the \<^verbatim>\<open>register\<close> message formats the width
  and the height (integers that \<^verbatim>\<open>int\<close> has accepted, so within any limit on the number
  of digits).\<close>

definition digit_char :: "nat \<Rightarrow> char" where
  "digit_char d = char_of (48 + d)"

fun str_nat :: "nat \<Rightarrow> string" where
  "str_nat n = (if n < 10 then [digit_char n] else str_nat (n div 10) @ [digit_char (n mod 10)])"

declare str_nat.simps [simp del]

definition str_int :: "int \<Rightarrow> string" where
  "str_int i = (if i < 0 then CHR ''-'' # str_nat (nat (- i)) else str_nat (nat i))"

section \<open>The signaling connection\<close>

definition register_message :: "streamer \<Rightarrow> message" where
  "register_message s =
     [(''type'', JStr ''register''), (''role'', JStr ''sender''),
      (''device'', JStr (device s)),
      (''resolution'', JStr (str_int (width s) @ ''x'' @ str_int (height s))),
      (''fps'', JInt (fps s))]"

text \<open>The loop \<^verbatim>\<open>async for message in self.websocket\<close> of \<^verbatim>\<open>connect_signaling\<close>, over the
  frames the connection delivers before it closes. \<^verbatim>\<open>json.loads\<close> is a parameter:
  \<open>None\<close> is \<^verbatim>\<open>JSONDecodeError\<close>, which the loop catches; any other exception leaves
  the loop.\<close>

fun receive_messages :: "(string \<Rightarrow> json option) \<Rightarrow> streamer \<Rightarrow> string list \<Rightarrow> outcome" where
  "receive_messages loads s [] = (Returned, s, [])"
| "receive_messages loads s (raw # rest) =
     (case loads raw of
        None \<Rightarrow>
          and_then (Returned, s, [Log ERROR (''Invalid JSON message: '' @ raw)])
            (\<lambda>s'. receive_messages loads s' rest)
      | Some data \<Rightarrow>
          and_then (handle_signaling_message s data)
            (\<lambda>s'. receive_messages loads s' rest))"

text \<open>What the network does to one connection attempt: it fails, or it succeeds,
  delivers frames and is then closed, cleanly or not. After the close the connection
  object is still stored in \<^verbatim>\<open>self.websocket\<close>; an exception of a handler leaves the
  connection open.\<close>

datatype closing = CleanClose | AbnormalClose

datatype conn_env = ConnectFails | Connects "string list" closing

definition connect_signaling :: "(string \<Rightarrow> json option) \<Rightarrow> streamer \<Rightarrow> conn_env \<Rightarrow> outcome" where
  "connect_signaling loads s conn =
     (let e0 = [Log INFO (''Connecting to signaling server: '' @ signaling_url s),
                WsConnect (signaling_url s)] in
      case conn of
        ConnectFails \<Rightarrow>
          (Raised ConnectError, s,
           e0 @ [LogExn ERROR ''Signaling connection error: '' ConnectError])
      | Connects frames closing \<Rightarrow>
          (case and_then
                  (and_then
                     (Returned, s\<lparr>websocket := Some Open\<rparr>,
                      e0 @ [Log INFO ''Connected to signaling server''])
                     (\<lambda>s'. send_signaling_message s' (register_message s')))
                  (\<lambda>s'. receive_messages loads s' frames) of
             (Raised e, s', es) \<Rightarrow>
               (Raised e, s', es @ [LogExn ERROR ''Signaling connection error: '' e])
           | (Returned, s', es) \<Rightarrow>
               (case closing of
                  CleanClose \<Rightarrow> (Returned, s'\<lparr>websocket := Some Closed\<rparr>, es)
                | AbnormalClose \<Rightarrow>
                    (Raised ConnectionClosedError, s'\<lparr>websocket := Some Closed\<rparr>,
                     es @ [LogExn ERROR ''Signaling connection error: ''
                             ConnectionClosedError]))))"

text \<open>\<^verbatim>\<open>run\<close>: an exception of \<^verbatim>\<open>start\<close> leaves it; an exception of
  \<^verbatim>\<open>connect_signaling\<close> is logged and answered by \<^verbatim>\<open>stop\<close>.\<close>

definition run :: "(string \<Rightarrow> json option) \<Rightarrow> streamer \<Rightarrow> gst_env \<Rightarrow> conn_env \<Rightarrow> outcome" where
  "run loads s genv conn =
     and_then (start s genv)
       (\<lambda>s1. case connect_signaling loads s1 conn of
                (Raised e, s2, es) \<Rightarrow>
                  and_then
                    (Returned, s2, es @ [LogExn ERROR ''Failed to connect to signaling: '' e])
                    stop
              | (Returned, s2, es) \<Rightarrow> (Returned, s2, es))"

section \<open>The command line\<close>












section \<open>Sequences of events\<close>

text \<open>What can happen to a streamer, one event at a time: a callback of the media
  engine, a decoded message handed to \<^verbatim>\<open>_handle_signaling_message\<close> by the receive
  loop, a scheduled task run by the event loop, a call of \<^verbatim>\<open>stop\<close>.\<close>

datatype event =
    NegotiationNeeded
  | OfferCreated "string option"
  | IceCandidate int string
  | IceConnectionState ice_state
  | ConnectionState
  | BusMessage bus_message
  | SignalingMessage json
  | RunTask task
  | Stop

fun dispatch :: "streamer \<Rightarrow> event \<Rightarrow> outcome" where
  "dispatch s NegotiationNeeded = on_negotiation_needed s"
| "dispatch s (OfferCreated offer) = on_offer_created s offer"
| "dispatch s (IceCandidate mline_index candidate) = on_ice_candidate s mline_index candidate"
| "dispatch s (IceConnectionState st) = on_ice_connection_state s st"
| "dispatch s ConnectionState = on_connection_state s"
| "dispatch s (BusMessage m) = on_bus_message s m"
| "dispatch s (SignalingMessage data) = handle_signaling_message s data"
| "dispatch s (RunTask t) = run_task s t"
| "dispatch s Stop = stop s"

fun run_events :: "streamer \<Rightarrow> event list \<Rightarrow> outcome" where
  "run_events s [] = (Returned, s, [])"
| "run_events s (e # es) = and_then (dispatch s e) (\<lambda>s'. run_events s' es)"

text \<open>The signals emitted on the media engine, the connection attempts and the
  effects other than log records, picked out of a sequence of effects.\<close>

fun emitted :: "effect list \<Rightarrow> signal list" where
  "emitted [] = []"
| "emitted (Emit sg # es) = sg # emitted es"
| "emitted (_ # es) = emitted es"

fun is_connect :: "effect \<Rightarrow> bool" where
  "is_connect (WsConnect _) = True"
| "is_connect _ = False"

fun is_send :: "effect \<Rightarrow> bool" where
  "is_send (WsSend _) = True"
| "is_send _ = False"

fun is_log :: "effect \<Rightarrow> bool" where
  "is_log (Log _ _) = True"
| "is_log (LogValue _ _ _) = True"
| "is_log (LogExn _ _ _) = True"
| "is_log _ = False"

definition actions :: "effect list \<Rightarrow> effect list" where
  "actions es = filter (\<lambda>e. \<not> is_log e) es"


text \<open>An inbound \<^verbatim>\<open>ice-candidate\<close> message that carries a candidate, and the signal that
  applies it.\<close>

fun is_remote_candidate :: "json \<Rightarrow> bool" where
  "is_remote_candidate (JObj d) =
     (dict_get d ''type'' = JStr ''ice-candidate'' \<and> truthy (dict_get d ''candidate''))"
| "is_remote_candidate _ = False"

fun candidate_signal :: "json \<Rightarrow> signal" where
  "candidate_signal (JObj d) =
     AddIceCandidate (dict_get_default d ''sdpMLineIndex'' (JInt 0)) (dict_get d ''candidate'')"
| "candidate_signal _ = AddIceCandidate JNull JNull"

text \<open>An inbound \<^verbatim>\<open>answer\<close> whose \<^verbatim>\<open>sdp\<close> is a non-empty string, and the signal that applies
  it.\<close>

fun is_answer :: "json \<Rightarrow> bool" where
  "is_answer (JObj d) =
     (dict_get d ''type'' = JStr ''answer'' \<and>
      (case dict_get d ''sdp'' of JStr text \<Rightarrow> text \<noteq> [] | _ \<Rightarrow> False))"
| "is_answer _ = False"

fun answer_signal :: "json \<Rightarrow> signal" where
  "answer_signal (JObj d) =
     (case dict_get d ''sdp'' of
        JStr text \<Rightarrow> SetRemoteDescription text
      | _ \<Rightarrow> SetRemoteDescription [])"
| "answer_signal _ = SetRemoteDescription []"

fun is_session_created :: "event \<Rightarrow> bool" where
  "is_session_created (SignalingMessage (JObj d)) = (dict_get d ''type'' = JStr ''session-created'')"
| "is_session_created _ = False"

text \<open>What \<^verbatim>\<open>message.get("session_id")\<close> gives for a decoded object.\<close>

fun session_id_of :: "json \<Rightarrow> json" where
  "session_id_of (JObj d) = dict_get d ''session_id''"
| "session_id_of _ = JNull"


section \<open>Concrete streamers and inputs\<close>

text \<open>The streamer of the default arguments of \<^verbatim>\<open>__init__\<close> (which are the defaults of
  the command line as well), a GStreamer that accepts everything, that streamer once
  \<^verbatim>\<open>start\<close> has returned, and the same with an open signaling connection.\<close>

definition default_streamer :: streamer where
  "default_streamer =
     init ''/dev/video0'' 1920 1080 30 4000000 ''ws://localhost:8765''
       ''stun://stun.l.google.com:19302''"

definition gst_ok :: gst_env where
  "gst_ok = \<lparr> launch_ok = True, fallback_ok = True, has_sendrecv = True, playing_ok = True \<rparr>"

definition started_streamer :: streamer where
  "started_streamer = state_of (start default_streamer gst_ok)"

definition connected_streamer :: streamer where
  "connected_streamer = started_streamer\<lparr>websocket := Some Open\<rparr>"


text \<open>A decoder that agrees with \<^verbatim>\<open>json.loads\<close> on the three frames used below: the
  empty object, a number, and text that is not JSON.\<close>

definition loads_sample :: "string \<Rightarrow> json option" where
  "loads_sample raw =
     (if raw = ''{}'' then Some (JObj [])
      else if raw = ''42'' then Some (JInt 42)
      else None)"

definition session_created :: "string \<Rightarrow> json" where
  "session_created sid = JObj [(''type'', JStr ''session-created''), (''session_id'', JStr sid)]"

definition answer :: "string \<Rightarrow> json" where
  "answer sdp = JObj [(''type'', JStr ''answer''), (''sdp'', JStr sdp)]"

definition remote_candidate :: "string \<Rightarrow> int \<Rightarrow> json" where
  "remote_candidate c i =
     JObj [(''type'', JStr ''ice-candidate''), (''candidate'', JStr c), (''sdpMLineIndex'', JInt i)]"

section \<open>Basic facts\<close>

lemma outcome_parts [simp]:
  "completion_of (c, s, es) = c" "state_of (c, s, es) = s" "effects_of (c, s, es) = es"
  by (simp_all add: completion_of_def state_of_def effects_of_def)

lemma and_then_Returned [simp]:
  "and_then (Returned, s, es) f = (completion_of (f s), state_of (f s), es @ effects_of (f s))"
  by (simp add: and_then_def completion_of_def state_of_def effects_of_def split: prod.splits)

lemma and_then_Raised [simp]: "and_then (Raised e, s, es) f = (Raised e, s, es)"
  by (simp add: and_then_def)

lemma emitted_append [simp]: "emitted (xs @ ys) = emitted xs @ emitted ys"
  by (induction xs rule: emitted.induct) simp_all

lemma started_streamer_eq:
  "started_streamer = default_streamer\<lparr>pipeline := Some Hardware, webrtcbin := Some ()\<rparr>"
  by (simp add: started_streamer_def start_def create_pipeline_def parse_launch_def
      get_sendrecv_def configure_ice_servers_def set_playing_def gst_ok_def
      default_streamer_def init_def)

lemma and_then_parts:
  "completion_of (and_then r f) =
     (case completion_of r of Returned \<Rightarrow> completion_of (f (state_of r)) | Raised e \<Rightarrow> Raised e)"
  "effects_of (and_then r f) =
     (case completion_of r of Returned \<Rightarrow> effects_of r @ effects_of (f (state_of r))
      | Raised e \<Rightarrow> effects_of r)"
  "state_of (and_then r f) =
     (case completion_of r of Returned \<Rightarrow> state_of (f (state_of r)) | Raised e \<Rightarrow> state_of r)"
  by (cases r; cases "fst r"; simp add: completion_of_def state_of_def effects_of_def)+

lemma run_events_Cons_Returned:
  assumes "completion_of (run_events s (e # es)) = Returned"
  shows "completion_of (dispatch s e) = Returned"
    and "completion_of (run_events (state_of (dispatch s e)) es) = Returned"
    and "effects_of (run_events s (e # es)) =
           effects_of (dispatch s e) @ effects_of (run_events (state_of (dispatch s e)) es)"
    and "state_of (run_events s (e # es)) = state_of (run_events (state_of (dispatch s e)) es)"
  using assms by (auto simp: and_then_parts split: completion.splits)

lemma stop_emits_nothing: "emitted (effects_of (stop s)) = []"
  by (simp add: stop_def Let_def)


lemma handle_answer_text:
  "webrtcbin s \<noteq> None \<Longrightarrow> dict_get d ''type'' = JStr ''answer'' \<Longrightarrow>
   dict_get d ''sdp'' = JStr text \<Longrightarrow> text \<noteq> [] \<Longrightarrow>
   handle_signaling_message s (JObj d) =
     (Returned, s, [Log INFO ''Received SDP answer'', Emit (SetRemoteDescription text)])"
  by (auto simp: handle_answer_def webrtcbin_emit_def Let_def)

lemma handle_answer_message:
  "webrtcbin s \<noteq> None \<Longrightarrow> text \<noteq> [] \<Longrightarrow>
   handle_signaling_message s (answer text) =
     (Returned, s, [Log INFO ''Received SDP answer'', Emit (SetRemoteDescription text)])"
  unfolding answer_def
  by (intro handle_answer_text) (simp_all add: dict_get_def dict_get_default_def)

lemma is_remote_candidate_message [simp]:
  "is_remote_candidate (remote_candidate c i) = (c \<noteq> [])"
  "candidate_signal (remote_candidate c i) = AddIceCandidate (JInt i) (JStr c)"
  by (simp_all add: remote_candidate_def dict_get_def dict_get_default_def)

lemma webrtcbin_started [simp]: "webrtcbin started_streamer = Some ()"
  by (simp add: started_streamer_eq)

lemma outcome_collapse [simp]: "(completion_of r, state_of r, effects_of r) = r"
  by (simp add: completion_of_def state_of_def effects_of_def)

lemma and_then_filter:
  "filter P (effects_of (and_then r f)) =
     (case completion_of r of
        Returned \<Rightarrow> filter P (effects_of r) @ filter P (effects_of (f (state_of r)))
      | Raised e \<Rightarrow> filter P (effects_of r))"
  by (simp add: and_then_parts split: completion.splits)

lemma stop_state:
  "completion_of (stop s) = Returned" "pipeline (state_of (stop s)) = None"
  "websocket (state_of (stop s)) = None"
  by (simp_all add: stop_def Let_def)

lemma stop_outcome: "stop s = (Returned, state_of (stop s), effects_of (stop s))"
  by (simp add: stop_def Let_def)

lemma send_open:
  "websocket s = Some Open \<Longrightarrow> send_signaling_message s m = (Returned, s, [WsSend m])"
  by (simp add: send_signaling_message_def)


lemma start_default:
  "start default_streamer gst_ok =
     (Returned, started_streamer,
      [Log INFO ''Starting WebRTC streamer...'', Log INFO ''Creating pipeline'',
       SetProperty ''stun-server'' ''stun://stun.l.google.com:19302'',
       Log INFO ''STUN server configured: stun://stun.l.google.com:19302'',
       Log INFO ''Pipeline created successfully'', PipelineSetState PLAYING,
       Log INFO ''Pipeline started''])"
  by (simp add: started_streamer_eq)
     (simp add: start_def create_pipeline_def parse_launch_def
      get_sendrecv_def configure_ice_servers_def set_playing_def gst_ok_def
      default_streamer_def init_def)

section \<open>The session id\<close>

lemma handle_session_created_message:
  "is_session_created (SignalingMessage m) \<Longrightarrow>
   handle_signaling_message s m =
     (Returned, s\<lparr>session_id := session_id_of m\<rparr>,
      [LogValue INFO ''Session created: '' (session_id_of m)])"
  by (cases m) (simp_all add: handle_session_created_def)

text \<open>
  C4, as the code has it. Every \<^verbatim>\<open>session-created\<close> message stores its \<^verbatim>\<open>session_id\<close>
  field (\<^verbatim>\<open>None\<close> when the field is missing) in the streamer, whatever id was stored
  before: after any number of such messages the stored id is the one of the last
  message, and nothing else in the streamer has changed.
\<close>

theorem last_session_created_decides:
  assumes "ms \<noteq> []" and "list_all (\<lambda>m. is_session_created (SignalingMessage m)) ms"
  shows "completion_of (run_events s (map SignalingMessage ms)) = Returned \<and>
         state_of (run_events s (map SignalingMessage ms)) =
           s\<lparr>session_id := session_id_of (last ms)\<rparr>"
  using assms
proof (induction ms arbitrary: s)
  case Nil
  then show ?case by simp
next
  case (Cons m ms)
  show ?case
  proof (cases "ms = []")
    case True
    then show ?thesis using Cons.prems by (simp add: handle_session_created_message)
  next
    case False
    then show ?thesis
      using Cons.prems Cons.IH [OF False, of "s\<lparr>session_id := session_id_of m\<rparr>"]
      by (simp add: handle_session_created_message)
  qed
qed

theorem last_session_created_decides_witness:
  "[session_created ''abc123'', session_created ''xyz789''] \<noteq> [] \<and>
   list_all (\<lambda>m. is_session_created (SignalingMessage m))
     [session_created ''abc123'', session_created ''xyz789''] \<and>
   state_of (run_events default_streamer
      (map SignalingMessage [session_created ''abc123'', session_created ''xyz789''])) =
     default_streamer\<lparr>session_id := JStr ''xyz789''\<rparr>"
proof -
  have h1: "[session_created ''abc123'', session_created ''xyz789''] \<noteq> []" by simp
  have h2: "list_all (\<lambda>m. is_session_created (SignalingMessage m))
     [session_created ''abc123'', session_created ''xyz789'']"
    by (simp add: session_created_def dict_get_def dict_get_default_def)
  have h3: "session_id_of (session_created ''xyz789'') = JStr ''xyz789''"
    by (simp add: session_created_def dict_get_def dict_get_default_def)
  show ?thesis
    using last_session_created_decides [OF h1 h2, of default_streamer] h2
    by (simp add: h3)
qed

text \<open>
  C4 as claimed fails: after \<^verbatim>\<open>session-created\<close> with id \<^verbatim>\<open>abc123\<close>, a second
  \<^verbatim>\<open>session-created\<close> with id \<^verbatim>\<open>xyz789\<close> is not ignored; the stored id is no longer
  \<^verbatim>\<open>abc123\<close>.
\<close>

theorem session_id_set_twice:
  "session_id
     (state_of
        (handle_signaling_message
           (state_of (handle_signaling_message default_streamer (session_created ''abc123'')))
           (session_created ''xyz789'')))
   = JStr ''xyz789''"
  by (simp add: session_created_def handle_session_created_def dict_get_def
      dict_get_default_def)

section \<open>Remote candidates and answers\<close>





lemma handle_is_answer:
  "webrtcbin s \<noteq> None \<Longrightarrow> is_answer m \<Longrightarrow>
   handle_signaling_message s m =
     (Returned, s, [Log INFO ''Received SDP answer'', Emit (answer_signal m)])"
  by (cases m)
     (auto simp: handle_answer_text split: json.splits simp del: handle_signaling_message.simps)

text \<open>
  C3, as the code has it. The streamer keeps no negotiation state: every \<^verbatim>\<open>answer\<close>
  whose \<^verbatim>\<open>sdp\<close> is a non-empty string is applied as the remote description, in every
  state in which the pipeline exists and however many answers came before. Nothing is
  rejected, and the fields of the streamer stay as they were.
\<close>

theorem every_answer_applied:
  assumes "webrtcbin s \<noteq> None" and "list_all is_answer ms"
  shows "completion_of (run_events s (map SignalingMessage ms)) = Returned \<and>
         state_of (run_events s (map SignalingMessage ms)) = s \<and>
         emitted (effects_of (run_events s (map SignalingMessage ms))) = map answer_signal ms"
  using assms
  by (induction ms) (simp_all add: handle_is_answer del: handle_signaling_message.simps)

theorem every_answer_applied_witness:
  "webrtcbin started_streamer \<noteq> None \<and>
   list_all is_answer [answer ''v=0 first'', answer ''v=0 second''] \<and>
   state_of (run_events started_streamer
      (map SignalingMessage [answer ''v=0 first'', answer ''v=0 second''])) = started_streamer \<and>
   emitted (effects_of (run_events started_streamer
      (map SignalingMessage [answer ''v=0 first'', answer ''v=0 second'']))) =
     [SetRemoteDescription ''v=0 first'', SetRemoteDescription ''v=0 second'']"
proof -
  have h1: "webrtcbin started_streamer \<noteq> None" by simp
  have h2: "list_all is_answer [answer ''v=0 first'', answer ''v=0 second'']"
    by (simp add: answer_def dict_get_def dict_get_default_def)
  have h3: "map answer_signal [answer ''v=0 first'', answer ''v=0 second''] =
      [SetRemoteDescription ''v=0 first'', SetRemoteDescription ''v=0 second'']"
    by (simp add: answer_def dict_get_def dict_get_default_def)
  show ?thesis
    using every_answer_applied [OF h1 h2] h1 h2 by (simp only: h3 simp_thms)
qed

text \<open>
  C3 as claimed fails: in a streamer that has sent no offer, an answer is applied, and a
  second answer is applied over the first.
\<close>

theorem second_answer_applied:
  "emitted (effects_of (run_events started_streamer
      [SignalingMessage (answer ''v=0 first''), SignalingMessage (answer ''v=0 second'')])) =
     [SetRemoteDescription ''v=0 first'', SetRemoteDescription ''v=0 second'']"
  by (simp add: handle_answer_message)

section \<open>Offers\<close>

lemma handle_emits_no_offer:
  "CreateOffer \<notin> set (emitted (effects_of (handle_signaling_message s m)))"
  by (cases m)
     (auto simp: handle_answer_def handle_ice_candidate_def handle_session_created_def
        handle_error_def webrtcbin_emit_def Let_def split: option.splits json.splits)

lemma dispatch_offers:
  "count_list (emitted (effects_of (dispatch s e))) CreateOffer =
     (if e = NegotiationNeeded then 1 else 0)"
proof (cases e)
  case (SignalingMessage m)
  then show ?thesis using handle_emits_no_offer [of s m] by (simp add: count_list_0_iff)
next
  case (BusMessage b)
  then show ?thesis by (cases b) (simp_all add: stop_emits_nothing)
next
  case (RunTask t)
  then show ?thesis
    by (cases t) (simp_all add: send_signaling_message_def split: option.splits channel.splits)
next
  case (OfferCreated offer)
  then show ?thesis by (cases offer) (simp_all add: on_offer_created_def)
qed (simp_all add: on_negotiation_needed_def on_ice_candidate_def stop_emits_nothing
      on_ice_connection_state_def on_connection_state_def)

text \<open>
  C2, as the code has it. Every \<^verbatim>\<open>negotiation-needed\<close> event asks the media engine for
  an offer, whatever happened before: in a sequence of events that runs without an
  exception, the number of \<^verbatim>\<open>create-offer\<close> requests is the number of
  \<^verbatim>\<open>negotiation-needed\<close> events. No event is coalesced.
\<close>

theorem every_negotiation_needed_creates_offer:
  "completion_of (run_events s evs) = Returned \<Longrightarrow>
   count_list (emitted (effects_of (run_events s evs))) CreateOffer =
     count_list evs NegotiationNeeded"
proof (induction evs arbitrary: s)
  case Nil
  then show ?case by simp
next
  case (Cons e evs)
  note r = run_events_Cons_Returned [OF Cons.prems]
  have "count_list (emitted (effects_of (run_events s (e # evs)))) CreateOffer =
      count_list (emitted (effects_of (dispatch s e))) CreateOffer +
      count_list (emitted (effects_of (run_events (state_of (dispatch s e)) evs))) CreateOffer"
    by (simp only: r(3) emitted_append count_list_append)
  also have "\<dots> = (if e = NegotiationNeeded then 1 else 0) + count_list evs NegotiationNeeded"
    by (simp only: dispatch_offers Cons.IH [OF r(2)])
  finally show ?case by simp
qed

theorem every_negotiation_needed_creates_offer_witness:
  "completion_of (run_events started_streamer
      [NegotiationNeeded, OfferCreated (Some ''v=0''), NegotiationNeeded]) = Returned \<and>
   count_list (emitted (effects_of (run_events started_streamer
      [NegotiationNeeded, OfferCreated (Some ''v=0''), NegotiationNeeded]))) CreateOffer = 2"
proof -
  have h: "completion_of (run_events started_streamer
      [NegotiationNeeded, OfferCreated (Some ''v=0''), NegotiationNeeded]) = Returned"
    by (simp add: on_negotiation_needed_def on_offer_created_def)
  show ?thesis using every_negotiation_needed_creates_offer [OF h] h by simp
qed

text \<open>
  C2 as claimed fails: a second \<^verbatim>\<open>negotiation-needed\<close> event, arriving before the first
  offer was created or answered, asks for a second offer.
\<close>

theorem second_offer_requested:
  "emitted (effects_of (run_events started_streamer [NegotiationNeeded, NegotiationNeeded])) =
     [CreateOffer, CreateOffer]"
  by (simp add: on_negotiation_needed_def)

section \<open>Sending\<close>

text \<open>
  C6, as the code has it. \<^verbatim>\<open>_send_signaling_message\<close> never raises and never changes the
  streamer. Without a websocket the message is dropped and nothing is logged; on a
  closed connection the failure of \<^verbatim>\<open>send\<close> is caught and logged, and the message is
  dropped; only on an open connection is the message transmitted.
\<close>

theorem send_never_raises:
  "completion_of (send_signaling_message s m) = Returned \<and>
   state_of (send_signaling_message s m) = s \<and>
   (websocket s = None \<longrightarrow> effects_of (send_signaling_message s m) = []) \<and>
   (websocket s = Some Closed \<longrightarrow>
      effects_of (send_signaling_message s m) =
        [LogExn ERROR ''Failed to send signaling message: '' ConnectionClosedError]) \<and>
   (websocket s = Some Open \<longrightarrow> effects_of (send_signaling_message s m) = [WsSend m])"
  by (simp add: send_signaling_message_def split: option.splits channel.splits)

theorem send_never_raises_witness:
  "send_signaling_message default_streamer [(''type'', JStr ''offer'')] =
     (Returned, default_streamer, []) \<and>
   send_signaling_message (default_streamer\<lparr>websocket := Some Closed\<rparr>)
       [(''type'', JStr ''offer'')] =
     (Returned, default_streamer\<lparr>websocket := Some Closed\<rparr>,
      [LogExn ERROR ''Failed to send signaling message: '' ConnectionClosedError])"
  using send_never_raises [of default_streamer "[(''type'', JStr ''offer'')]"]
    send_never_raises [of "default_streamer\<lparr>websocket := Some Closed\<rparr>"
      "[(''type'', JStr ''offer'')]"]
  by (simp add: send_signaling_message_def default_streamer_def init_def)

text \<open>
  C6 as claimed fails: with no websocket, sending the \<^verbatim>\<open>register\<close> message returns
  normally with no effect at all; no error reaches the caller.
\<close>

theorem send_without_websocket_is_silent:
  "send_signaling_message default_streamer (register_message default_streamer) =
     (Returned, default_streamer, [])"
  by (simp add: send_signaling_message_def default_streamer_def init_def)

section \<open>The receive loop\<close>




text \<open>A frame that decodes to something other than an object is outside C7: the
  handler raises, which ends the receive loop.\<close>

lemma non_object_frame_ends_loop:
  "receive_messages loads_sample started_streamer [''42'', ''{}''] =
     (Raised AttributeError, started_streamer, [])"
  by (simp add: loads_sample_def)

section \<open>Connection loss\<close>

lemma handle_no_traffic:
  "filter is_connect (effects_of (handle_signaling_message s m)) = []"
  "filter is_send (effects_of (handle_signaling_message s m)) = []"
  by (cases m;
      auto simp: handle_answer_def handle_ice_candidate_def handle_session_created_def
        handle_error_def webrtcbin_emit_def Let_def split: option.splits json.splits)+

lemma receive_no_traffic:
  "filter is_connect (effects_of (receive_messages loads s frames)) = [] \<and>
   filter is_send (effects_of (receive_messages loads s frames)) = []"
  by (induction frames arbitrary: s)
     (simp_all add: and_then_filter handle_no_traffic split: option.splits completion.splits
        del: handle_signaling_message.simps)

lemma stop_no_traffic:
  "filter is_connect (effects_of (stop s)) = []" "filter is_send (effects_of (stop s)) = []"
  by (simp_all add: stop_def Let_def)

lemma start_no_traffic:
  "filter is_connect (effects_of (start s genv)) = []"
  "filter is_send (effects_of (start s genv)) = []"
  by (simp_all add: start_def create_pipeline_def parse_launch_def get_sendrecv_def
      configure_ice_servers_def set_playing_def and_then_filter)

lemma connect_signaling_Connects:
  "connect_signaling loads s (Connects frames closing) =
     (let s1 = s\<lparr>websocket := Some Open\<rparr>;
          rm = receive_messages loads s1 frames;
          es = [Log INFO (''Connecting to signaling server: '' @ signaling_url s),
                WsConnect (signaling_url s), Log INFO ''Connected to signaling server'',
                WsSend (register_message s1)] @ effects_of rm
      in case completion_of rm of
           Raised e \<Rightarrow>
             (Raised e, state_of rm, es @ [LogExn ERROR ''Signaling connection error: '' e])
         | Returned \<Rightarrow>
             (case closing of
                CleanClose \<Rightarrow> (Returned, (state_of rm)\<lparr>websocket := Some Closed\<rparr>, es)
              | AbnormalClose \<Rightarrow>
                  (Raised ConnectionClosedError, (state_of rm)\<lparr>websocket := Some Closed\<rparr>,
                   es @ [LogExn ERROR ''Signaling connection error: '' ConnectionClosedError])))"
  by (simp add: connect_signaling_def send_open Let_def split: completion.splits)

lemma connect_signaling_traffic:
  "length (filter is_connect (effects_of (connect_signaling loads s conn))) = 1 \<and>
   length (filter is_send (effects_of (connect_signaling loads s conn))) =
     (case conn of ConnectFails \<Rightarrow> 0 | Connects _ _ \<Rightarrow> 1)"
proof (cases conn)
  case ConnectFails
  then show ?thesis by (simp add: connect_signaling_def)
next
  case (Connects frames closing)
  show ?thesis
    unfolding Connects connect_signaling_Connects Let_def
    by (simp add: receive_no_traffic split: completion.splits closing.splits)
qed

text \<open>
  C5, as the code has it. There is no reconnection and no delay: \<^verbatim>\<open>run\<close> makes at most
  one connection attempt and sends at most one message (the \<^verbatim>\<open>register\<close> message of
  that one connection). When the attempt fails, the connection is lost, or a handler
  raises, \<^verbatim>\<open>run\<close> logs the error, calls \<^verbatim>\<open>stop\<close> and returns, with the pipeline torn
  down and the websocket dropped.
\<close>

theorem run_connects_once:
  "length (filter is_connect (effects_of (run loads s genv conn))) \<le> 1 \<and>
   length (filter is_send (effects_of (run loads s genv conn))) \<le> 1 \<and>
   (completion_of (start s genv) = Returned \<and>
    completion_of (connect_signaling loads (state_of (start s genv)) conn) = Raised e \<longrightarrow>
      completion_of (run loads s genv conn) = Returned \<and>
      pipeline (state_of (run loads s genv conn)) = None \<and>
      websocket (state_of (run loads s genv conn)) = None \<and>
      length (filter is_connect (effects_of (run loads s genv conn))) = 1 \<and>
      effects_of (run loads s genv conn) =
        effects_of (start s genv) @
        effects_of (connect_signaling loads (state_of (start s genv)) conn) @
        LogExn ERROR ''Failed to connect to signaling: '' e #
        effects_of (stop (state_of (connect_signaling loads (state_of (start s genv)) conn))))"
proof -
  obtain c1 s1 es1 where st: "start s genv = (c1, s1, es1)"
    using prod_cases3 by blast
  obtain c2 s2 es2 where cn: "connect_signaling loads s1 conn = (c2, s2, es2)"
    using prod_cases3 by blast
  have t1: "filter is_connect es1 = []" "filter is_send es1 = []"
    using start_no_traffic [of s genv] by (simp_all add: st)
  have t2: "length (filter is_connect es2) = 1" "length (filter is_send es2) \<le> 1"
    using connect_signaling_traffic [of loads s1 conn]
    by (simp_all add: cn split: conn_env.splits)
  show ?thesis
  proof (cases c1)
    case (Raised e1)
    then show ?thesis using t1 by (simp add: run_def st)
  next
    case Returned
    show ?thesis
    proof (cases c2)
      case (Raised e2)
      then show ?thesis
        using t1 t2 Returned stop_outcome [of s2]
        by (simp add: run_def st cn stop_no_traffic stop_state)
    next
      case r2: Returned
      then show ?thesis using t1 t2 Returned by (simp add: run_def st cn)
    qed
  qed
qed

theorem run_connects_once_witness:
  "completion_of (start default_streamer gst_ok) = Returned \<and>
   completion_of
     (connect_signaling loads_sample (state_of (start default_streamer gst_ok)) ConnectFails) =
     Raised ConnectError \<and>
   completion_of (run loads_sample default_streamer gst_ok ConnectFails) = Returned \<and>
   pipeline (state_of (run loads_sample default_streamer gst_ok ConnectFails)) = None \<and>
   length (filter is_connect
      (effects_of (run loads_sample default_streamer gst_ok ConnectFails))) = 1"
proof -
  have h: "completion_of (start default_streamer gst_ok) = Returned \<and>
      completion_of
        (connect_signaling loads_sample (state_of (start default_streamer gst_ok))
           ConnectFails) = Raised ConnectError"
    by (simp add: start_default connect_signaling_def)
  show ?thesis
    using run_connects_once [of loads_sample default_streamer gst_ok ConnectFails ConnectError] h
    by blast
qed

text \<open>
  C5 as claimed fails: after a failed connection attempt \<^verbatim>\<open>run\<close> does not try again.
  The whole run is one attempt, two error records and the teardown.
\<close>

theorem no_reconnect_after_failure:
  "run loads_sample default_streamer gst_ok ConnectFails =
     (Returned, default_streamer\<lparr>webrtcbin := Some ()\<rparr>,
      [Log INFO ''Starting WebRTC streamer...'', Log INFO ''Creating pipeline'',
       SetProperty ''stun-server'' ''stun://stun.l.google.com:19302'',
       Log INFO ''STUN server configured: stun://stun.l.google.com:19302'',
       Log INFO ''Pipeline created successfully'', PipelineSetState PLAYING,
       Log INFO ''Pipeline started'',
       Log INFO ''Connecting to signaling server: ws://localhost:8765'',
       WsConnect ''ws://localhost:8765'',
       LogExn ERROR ''Signaling connection error: '' ConnectError,
       LogExn ERROR ''Failed to connect to signaling: '' ConnectError,
       Log INFO ''Stopping WebRTC streamer...'', PipelineSetState NULL,
       Log INFO ''Streamer stopped''])"
  by (simp add: run_def start_default connect_signaling_def stop_def started_streamer_eq)
     (simp add: default_streamer_def init_def)

section \<open>Stopping twice\<close>

text \<open>No operation assigns \<^verbatim>\<open>self.loop\<close>: it is \<^verbatim>\<open>None\<close> from \<^verbatim>\<open>__init__\<close> on.\<close>

lemma stop_loop: "loop (state_of (stop s)) = loop s"
  by (simp add: stop_def Let_def)

lemma handle_loop: "loop (state_of (handle_signaling_message s m)) = loop s"
  by (cases m)
     (auto simp: handle_answer_def handle_ice_candidate_def handle_session_created_def
        handle_error_def webrtcbin_emit_def Let_def split: option.splits json.splits)

lemma dispatch_loop: "loop (state_of (dispatch s e)) = loop s"
proof (cases e)
  case (BusMessage b)
  then show ?thesis by (cases b) (simp_all add: stop_loop)
next
  case (RunTask t)
  then show ?thesis
    by (cases t) (simp_all add: send_signaling_message_def split: option.splits channel.splits)
next
  case (OfferCreated offer)
  then show ?thesis by (cases offer) (simp_all add: on_offer_created_def)
qed (simp_all add: on_negotiation_needed_def on_ice_candidate_def stop_loop handle_loop
      on_ice_connection_state_def on_connection_state_def
      del: handle_signaling_message.simps)

lemma run_events_loop: "loop (state_of (run_events s evs)) = loop s"
  by (induction evs arbitrary: s)
     (simp_all add: and_then_parts dispatch_loop split: completion.splits)

lemma receive_loop: "loop (state_of (receive_messages loads s frames)) = loop s"
  by (induction frames arbitrary: s)
     (simp_all add: and_then_parts handle_loop split: option.splits completion.splits
        del: handle_signaling_message.simps)

lemma start_loop: "loop (state_of (start s genv)) = loop s"
  by (simp add: start_def create_pipeline_def parse_launch_def get_sendrecv_def
      configure_ice_servers_def set_playing_def and_then_parts)

lemma connect_signaling_loop: "loop (state_of (connect_signaling loads s conn)) = loop s"
proof (cases conn)
  case ConnectFails
  then show ?thesis by (simp add: connect_signaling_def)
next
  case (Connects frames closing)
  show ?thesis
    unfolding Connects connect_signaling_Connects Let_def
    using receive_loop [of loads "s\<lparr>websocket := Some Open\<rparr>" frames]
    by (simp split: completion.splits closing.splits)
qed

lemma run_loop: "loop (state_of (run loads s genv conn)) = loop s"
proof -
  obtain c2 s2 es2 where cn:
    "connect_signaling loads (state_of (start s genv)) conn = (c2, s2, es2)"
    using prod_cases3 by blast
  have "loop s2 = loop s"
    using connect_signaling_loop [of loads "state_of (start s genv)" conn]
    by (simp add: cn start_loop)
  then show ?thesis
    using start_loop [of s genv]
    by (cases c2) (simp_all add: run_def and_then_parts cn stop_loop split: completion.splits)
qed

lemma init_loop: "loop (init dev w h f b url stun) = None"
  by (simp add: init_def)

lemma loop_never_assigned:
  "loop (state_of (run_events (state_of (run loads (init dev w h f b url stun) genv conn)) evs))
     = None"
  by (simp add: run_events_loop run_loop init_loop)

text \<open>The statement-by-statement \<^verbatim>\<open>stop\<close>, run to its end without interruption, is
  \<^verbatim>\<open>stop\<close>.\<close>

lemma stop_steps_stop:
  "stop_steps 10 AtLogStopping s = (Returned, AtReturn, state_of (stop s), effects_of (stop s))"
  by (cases "pipeline s"; cases "websocket s"; cases "loop s")
     (simp_all add: eval_nat_numeral stop_def)

lemma connected_streamer_eq:
  "connected_streamer =
     default_streamer\<lparr>pipeline := Some Hardware, webrtcbin := Some (), websocket := Some Open\<rparr>"
  by (simp add: connected_streamer_def started_streamer_eq)

text \<open>
  C8, as the code has it. In every streamer whose \<^verbatim>\<open>loop\<close> is \<^verbatim>\<open>None\<close> (every streamer the
  program can reach, as above), \<^verbatim>\<open>stop\<close> returns normally, and a second \<^verbatim>\<open>stop\<close> called
  after the first has returned returns normally too, leaves the streamer as the first
  call left it and does nothing but log: the two calls tear down exactly what one call
  does.
\<close>

theorem stop_idempotent:
  assumes "loop s = None"
  shows "completion_of (stop s) = Returned \<and>
         completion_of (stop (state_of (stop s))) = Returned \<and>
         state_of (stop (state_of (stop s))) = state_of (stop s) \<and>
         actions (effects_of (stop (state_of (stop s)))) = [] \<and>
         actions (effects_of (run_events s [Stop, Stop])) = actions (effects_of (stop s))"
  using assms by (simp add: stop_def Let_def actions_def)

theorem stop_idempotent_witness:
  "loop connected_streamer = None \<and>
   actions (effects_of (stop connected_streamer)) =
     [PipelineSetState NULL, CreateTask WebsocketClose] \<and>
   actions (effects_of (run_events connected_streamer [Stop, Stop])) =
     [PipelineSetState NULL, CreateTask WebsocketClose] \<and>
   effects_of (stop (state_of (stop connected_streamer))) =
     [Log INFO ''Stopping WebRTC streamer...'', Log INFO ''Streamer stopped'']"
proof -
  have h: "loop connected_streamer = None"
    by (simp add: connected_streamer_def started_streamer_eq default_streamer_def init_def)
  have a: "actions (effects_of (stop connected_streamer)) =
     [PipelineSetState NULL, CreateTask WebsocketClose]"
    by (simp add: connected_streamer_def started_streamer_eq stop_def actions_def
        default_streamer_def init_def)
  have b: "effects_of (stop (state_of (stop connected_streamer))) =
     [Log INFO ''Stopping WebRTC streamer...'', Log INFO ''Streamer stopped'']"
    using h by (simp add: stop_def Let_def)
  show ?thesis using stop_idempotent [OF h] h a b by simp
qed


text \<open>
  C8 as claimed fails for a call that arrives while a first call is in progress: when
  the signal handler's \<^verbatim>\<open>stop\<close> runs after the first call has set the pipeline to
  \<^verbatim>\<open>NULL\<close> and before it has cleared \<^verbatim>\<open>self.pipeline\<close> (three statements in), the pipeline
  is set to \<^verbatim>\<open>NULL\<close> a second time.
\<close>

theorem interrupted_stop_repeats_teardown:
  "actions (snd (snd (stop_interrupted 3 connected_streamer))) =
     [PipelineSetState NULL, PipelineSetState NULL, CreateTask WebsocketClose]"
  by (simp add: stop_interrupted_def signal_handler_def eval_nat_numeral connected_streamer_eq
      stop_def actions_def default_streamer_def init_def)

section \<open>Messages sent before the session exists\<close>







section \<open>The resolution argument\<close>






















end
